theory Spec2Isabelle
  imports Main "HOL-Library.Word" "HOL-Library.Sublist" "HOL-Library.Monad_Syntax"
begin

unbundle bit_operations_syntax

section \<open>Go strings and the parts of package strings that focusd calls\<close>

text \<open>
  A Go \<open>byte\<close> is a \<open>char\<close>, the type of 8-bit values; \<open>of_char\<close> reads it as a
  number. A Go \<open>string\<close> and a \<open>[]byte\<close> are both sequences of bytes, so the conversions
  \<open>string(b)\<close> and \<open>[]byte(s)\<close> are the identity on the bytes.

  \<open>strings.ToLower\<close> and \<open>strings.TrimSpace\<close> of the Go standard library have a fast
  path for ASCII bytes and fall back to Unicode tables (\<open>strings.Map(unicode.ToLower, s)\<close>,
  \<open>strings.TrimFunc(s, unicode.IsSpace)\<close>, \<open>strings.TrimRightFunc(s, unicode.IsSpace)\<close>)
  as soon as they meet a byte \<open>\<ge> 0x80\<close>. The ASCII path is modelled bytewise; the three
  Unicode fallbacks are not part of this repository and are taken as parameters,
  collected in a record.
\<close>

type_synonym byte = char

record unicode =
  mapToLower :: "string \<Rightarrow> string"
  trimFuncIsSpace :: "string \<Rightarrow> string"
  trimRightFuncIsSpace :: "string \<Rightarrow> string"

definition runeSelf :: nat where
  "runeSelf = 128"

definition isASCII :: "char \<Rightarrow> bool" where
  "isASCII c = ((of_char c :: nat) < runeSelf)"

definition isUpper :: "char \<Rightarrow> bool" where
  "isUpper c = (65 \<le> (of_char c :: nat) \<and> (of_char c :: nat) \<le> 90)"

definition lowerByte :: "char \<Rightarrow> char" where
  "lowerByte c = (if isUpper c then char_of ((of_char c :: nat) + 32) else c)"

definition ToLower :: "unicode \<Rightarrow> string \<Rightarrow> string" where
  "ToLower U s = (if list_all isASCII s then map lowerByte s else mapToLower U s)"

definition HasPrefix :: "string \<Rightarrow> string \<Rightarrow> bool" where
  "HasPrefix s p = (length p \<le> length s \<and> take (length p) s = p)"

definition HasSuffix :: "string \<Rightarrow> string \<Rightarrow> bool" where
  "HasSuffix s x = (length x \<le> length s \<and> drop (length s - length x) s = x)"

definition TrimPrefix :: "string \<Rightarrow> string \<Rightarrow> string" where
  "TrimPrefix s p = (if HasPrefix s p then drop (length p) s else s)"

definition TrimSuffix :: "string \<Rightarrow> string \<Rightarrow> string" where
  "TrimSuffix s x = (if HasSuffix s x then take (length s - length x) s else s)"

text \<open>
  \<open>strings.TrimSpace\<close>: the first loop skips ASCII white space from the left, the second
  from the right; either hands over to the Unicode-aware trimming at the first byte
  \<open>\<ge> 0x80\<close> it meets.
\<close>

definition asciiSpace :: "char \<Rightarrow> bool" where
  "asciiSpace c = ((of_char c :: nat) \<in> {9, 10, 11, 12, 13, 32})"

function trimStop :: "unicode \<Rightarrow> string \<Rightarrow> string" where
  "trimStop U s =
     (if s = [] then []
      else if \<not> isASCII (last s) then trimRightFuncIsSpace U s
      else if asciiSpace (last s) then trimStop U (butlast s)
      else s)"
  by pat_completeness auto
termination
  by (relation "measure (\<lambda>(U, s). length s)") auto

declare trimStop.simps [simp del]

fun trimStart :: "unicode \<Rightarrow> string \<Rightarrow> string" where
  "trimStart U [] = trimStop U []"
| "trimStart U (c # cs) =
     (if \<not> isASCII c then trimFuncIsSpace U (c # cs)
      else if asciiSpace c then trimStart U cs
      else trimStop U (c # cs))"

definition TrimSpace :: "unicode \<Rightarrow> string \<Rightarrow> string" where
  "TrimSpace U s = trimStart U s"

section \<open>The domain matcher (internal/proxy/proxy.go, isBlocked)\<close>

text \<open>
  The body of the \<open>for _, blocked := range p.blockedDomains\<close> loop is \<open>blockedBy\<close>: it
  says whether the iteration returns true for the already normalised host. The loop
  itself is \<open>isBlockedLoop\<close>; \<open>isBlocked\<close> normalises the host first.
\<close>

definition blockedBy :: "unicode \<Rightarrow> string \<Rightarrow> string \<Rightarrow> bool" where
  "blockedBy U host blocked0 =
     (let blocked = ToLower U (TrimSuffix blocked0 ''.'') in
      if host = blocked \<or> HasSuffix host (''.'' @ blocked) then True
      else if HasPrefix blocked ''www.'' then
        (let bareBlocked = TrimPrefix blocked ''www.'' in
         host = bareBlocked \<or> HasSuffix host (''.'' @ bareBlocked))
      else False)"

fun isBlockedLoop :: "unicode \<Rightarrow> string \<Rightarrow> string list \<Rightarrow> bool" where
  "isBlockedLoop U host [] = False"
| "isBlockedLoop U host (blocked # rest) =
     (if blockedBy U host blocked then True else isBlockedLoop U host rest)"

definition isBlocked :: "unicode \<Rightarrow> string list \<Rightarrow> string \<Rightarrow> bool" where
  "isBlocked U blockedDomains host0 =
     isBlockedLoop U (ToLower U (TrimSuffix host0 ''.'')) blockedDomains"

subsection \<open>The match relation in the words of the specification\<close>

text \<open>
  Section 3 of the specification: a hostname \<open>h\<close> matches a rule \<open>r\<close> if \<open>h = r\<close> or \<open>h\<close>
  ends with \<open>"." + r\<close>; a rule that begins with \<open>"www."\<close> also takes part in its bare
  form \<open>r[4:]\<close>. Both sides are compared case-insensitively and with a trailing dot
  stripped, which \<open>specNorm\<close> does.
\<close>

definition specNorm :: "unicode \<Rightarrow> string \<Rightarrow> string" where
  "specNorm U s = ToLower U (TrimSuffix s ''.'')"

definition specMatch :: "string \<Rightarrow> string \<Rightarrow> bool" where
  "specMatch h r = (h = r \<or> HasSuffix h (''.'' @ r))"

definition specMatches :: "unicode \<Rightarrow> string \<Rightarrow> string list \<Rightarrow> bool" where
  "specMatches U h rules =
     (\<exists>r \<in> set rules.
        specMatch (specNorm U h) (specNorm U r) \<or>
        (HasPrefix (specNorm U r) ''www.'' \<and> specMatch (specNorm U h) (drop 4 (specNorm U r))))"

section \<open>The state store (package state)\<close>

text \<open>
  The file system is a map from paths to nodes; \<open>filepath.Dir\<close> is a parameter of the
  file system record. A path that the map holds exists, so its ancestors are directories
  whether the map lists them or not. \<open>os.ReadFile\<close> of a path that the map does not hold
  fails: with \<open>ENOTDIR\<close>, which is not a not-exist error, when one of the ancestors of the
  path is a regular file (\<open>fileAbove\<close> walks up with \<open>filepath.Dir\<close>, at most as many steps
  as the path has bytes), and with a not-exist error otherwise. It fails with another
  error on a directory. \<open>os.WriteFile\<close> creates or truncates a regular file and fails on
  a directory; \<open>os.MkdirAll\<close> fails when the path is a regular file. Permissions are not
  modelled: every directory can be searched and every file read, as for the daemon, which
  runs as root.
\<close>

datatype node = RegularFile string | Directory

datatype fsError = ErrNotExist | ErrIsDirectory | ErrNotDirectory

record filesystem =
  nodes :: "string \<rightharpoonup> node"
  filepathDir :: "string \<Rightarrow> string"

definition isFile :: "filesystem \<Rightarrow> string \<Rightarrow> bool" where
  "isFile fs p = (case nodes fs p of Some (RegularFile d) \<Rightarrow> True | _ \<Rightarrow> False)"

fun fileAbove :: "filesystem \<Rightarrow> nat \<Rightarrow> string \<Rightarrow> bool" where
  "fileAbove fs 0 p = False"
| "fileAbove fs (Suc n) p =
     (isFile fs (filepathDir fs p) \<or> fileAbove fs n (filepathDir fs p))"

definition ReadFile :: "filesystem \<Rightarrow> string \<Rightarrow> fsError + string" where
  "ReadFile fs p =
     (case nodes fs p of
        None \<Rightarrow> (if fileAbove fs (length p) p then Inl ErrNotDirectory else Inl ErrNotExist)
      | Some Directory \<Rightarrow> Inl ErrIsDirectory
      | Some (RegularFile d) \<Rightarrow> Inr d)"



definition IsNotExist :: "fsError \<Rightarrow> bool" where
  "IsNotExist e = (e = ErrNotExist)"

definition DefaultStatePath :: string where
  "DefaultStatePath = ''/var/lib/focusd/state''"

definition stateEnabled :: string where
  "stateEnabled = ''enabled''"


record State =
  path :: string

definition New :: "string \<Rightarrow> State" where
  "New p = \<lparr>path = (if p = [] then DefaultStatePath else p)\<rparr>"

datatype stateError =
  ReadingStateFile fsError
| CreatingStateDirectory fsError
| WritingStateFile fsError

definition IsEnabled :: "unicode \<Rightarrow> filesystem \<Rightarrow> State \<Rightarrow> stateError + bool" where
  "IsEnabled U fs s =
     (case ReadFile fs (path s) of
        Inl err \<Rightarrow> (if IsNotExist err then Inr True else Inl (ReadingStateFile err))
      | Inr data \<Rightarrow> Inr (TrimSpace U data = stateEnabled))"


section \<open>Loading the blocklist (package config, LoadBlocklist)\<close>

text \<open>
  \<open>yaml.Unmarshal\<close> into a \<open>Blocklist\<close> is an external library: it is the parameter
  \<open>yamlDomains\<close>, which gives the \<open>Domains\<close> field of the parsed file, or \<open>None\<close> on a
  parse error.
\<close>

record Config =
  BlockedDomains :: "string list"
  BlocklistPath :: string
  RefreshIntervalMinutes :: int
  USBKeyPath :: string
  TokenHashPath :: string
  DnsmasqConfigPath :: string

datatype configError =
  NoBlocklistPathConfigured
| ReadingBlocklistFile string fsError
| ParsingBlocklistFile
| BlocklistFileContainsNoDomains

definition LoadBlocklist ::
  "(string \<Rightarrow> string list option) \<Rightarrow> filesystem \<Rightarrow> Config \<Rightarrow> configError + string list" where
  "LoadBlocklist yamlDomains fs c =
     (if length (BlockedDomains c) > 0 then Inr (BlockedDomains c)
      else if BlocklistPath c = [] then Inl NoBlocklistPathConfigured
      else
        (case ReadFile fs (BlocklistPath c) of
           Inl err \<Rightarrow> Inl (ReadingBlocklistFile (BlocklistPath c) err)
         | Inr data \<Rightarrow>
             (case yamlDomains data of
                None \<Rightarrow> Inl ParsingBlocklistFile
              | Some domains \<Rightarrow>
                  if length domains = 0 then Inl BlocklistFileContainsNoDomains
                  else Inr domains)))"

section \<open>The resolver (internal/resolver/resolver.go)\<close>

text \<open>
  \<open>net.LookupIP\<close> is the parameter \<open>lookupIP\<close> (\<open>None\<close> is a resolution error) and
  \<open>net.IP.String\<close> the parameter \<open>ipString\<close>. The Go map \<open>ipSet\<close> is an association
  list with at most one entry per key, kept in order of first insertion; Go leaves the
  order of the result slice unspecified, so only the set of its elements is meaningful.
  The state of the loop also records the names handed to the resolver, in order, and
  the names for which a warning was printed.
\<close>

fun mapStore :: "'k \<Rightarrow> 'v \<Rightarrow> ('k \<times> 'v) list \<Rightarrow> ('k \<times> 'v) list" where
  "mapStore k v [] = [(k, v)]"
| "mapStore k v ((k', v') # m) =
     (if k = k' then (k, v) # m else (k', v') # mapStore k v m)"

record 'ip resolveState =
  ipSet :: "(string \<times> 'ip) list"
  queried :: "string list"
  warned :: "string list"

definition resolveDomain ::
  "(string \<Rightarrow> 'ip list option) \<Rightarrow> 'ip resolveState \<Rightarrow> string \<Rightarrow> 'ip list option \<times> 'ip resolveState" where
  "resolveDomain lookupIP st domain = (lookupIP domain, st\<lparr>queried := queried st @ [domain]\<rparr>)"

fun storeAll :: "('ip \<Rightarrow> string) \<Rightarrow> 'ip list \<Rightarrow> 'ip resolveState \<Rightarrow> 'ip resolveState" where
  "storeAll ipString [] st = st"
| "storeAll ipString (ip # ips) st =
     storeAll ipString ips (st\<lparr>ipSet := mapStore (ipString ip) ip (ipSet st)\<rparr>)"

fun ResolveLoop ::
  "(string \<Rightarrow> 'ip list option) \<Rightarrow> ('ip \<Rightarrow> string) \<Rightarrow> 'ip resolveState \<Rightarrow> string list \<Rightarrow> 'ip resolveState" where
  "ResolveLoop lookupIP ipString st [] = st"
| "ResolveLoop lookupIP ipString st (domain # rest) =
     (case resolveDomain lookupIP st domain of
        (None, st1) \<Rightarrow>
          ResolveLoop lookupIP ipString (st1\<lparr>warned := warned st1 @ [domain]\<rparr>) rest
      | (Some ips, st1) \<Rightarrow>
          (let st2 = storeAll ipString ips st1 in
           if \<not> HasPrefix domain ''www.'' then
             (let wwwDomain = ''www.'' @ domain in
              case resolveDomain lookupIP st2 wwwDomain of
                (None, st3) \<Rightarrow> ResolveLoop lookupIP ipString st3 rest
              | (Some ips', st3) \<Rightarrow>
                  ResolveLoop lookupIP ipString (storeAll ipString ips' st3) rest)
           else ResolveLoop lookupIP ipString st2 rest))"

definition Resolve ::
  "(string \<Rightarrow> 'ip list option) \<Rightarrow> ('ip \<Rightarrow> string) \<Rightarrow> string list \<Rightarrow> 'ip list \<times> 'ip resolveState" where
  "Resolve lookupIP ipString domains =
     (let st = ResolveLoop lookupIP ipString \<lparr>ipSet = [], queried = [], warned = []\<rparr> domains
      in (map snd (ipSet st), st))"

section \<open>The SNI extractor (internal/sni/parser.go)\<close>

text \<open>
  A Go slice of bytes is a window on a backing array: \<open>arr\<close> holds the bytes from the
  start of the slice to the end of its capacity, \<open>len\<close> is its length
  (\<open>len s \<le> length (arr s)\<close>, the capacity). An index expression \<open>s[i]\<close> panics unless
  \<open>i < len(s)\<close>; a slice expression \<open>s[lo:hi]\<close> panics unless \<open>lo \<le> hi \<le> cap(s)\<close>, so it
  can reach bytes of the backing array that lie beyond \<open>len(s)\<close>.

  A call returns a value, returns one of the package's errors, or panics. Positions are
  Go \<open>int\<close>s (64 bits); they are never negative and exceed \<open>len(data)\<close> by less than
  \<open>2^17\<close>, so they are natural numbers here. \<open>recordLength\<close> is a \<open>uint16\<close>, and
  \<open>5+recordLength\<close> wraps around at 16 bits.
\<close>

record bytes =
  arr :: "byte list"
  len :: nat

definition cap :: "bytes \<Rightarrow> nat" where
  "cap s = length (arr s)"

definition mkSlice :: "byte list \<Rightarrow> bytes" where
  "mkSlice bs = \<lparr>arr = bs, len = length bs\<rparr>"

definition contents :: "bytes \<Rightarrow> byte list" where
  "contents s = take (len s) (arr s)"

datatype sniError = ErrNotHandshake | ErrNotClientHello | ErrNoSNI | ErrInvalidData

datatype ('e, 'a) outcome = Ok 'a | Err 'e | Panic

type_synonym 'a result = "(sniError, 'a) outcome"

definition bindR :: "'a result \<Rightarrow> ('a \<Rightarrow> 'b result) \<Rightarrow> 'b result" where
  "bindR m f = (case m of Ok x \<Rightarrow> f x | Err e \<Rightarrow> Err e | Panic \<Rightarrow> Panic)"

definition index :: "bytes \<Rightarrow> nat \<Rightarrow> byte result" where
  "index s i = (if i < len s then Ok (arr s ! i) else Panic)"

definition reslice :: "bytes \<Rightarrow> nat \<Rightarrow> nat \<Rightarrow> bytes result" where
  "reslice s lo hi =
     (if lo \<le> hi \<and> hi \<le> cap s then Ok \<lparr>arr = drop lo (arr s), len = hi - lo\<rparr> else Panic)"

definition Uint16 :: "bytes \<Rightarrow> 16 word result" where
  "Uint16 b =
     bindR (index b 1) (\<lambda>b1.
     bindR (index b 0) (\<lambda>b0.
       Ok (of_char b1 OR push_bit 8 (of_char b0))))"

definition stringOf :: "bytes \<Rightarrow> string" where
  "stringOf s = contents s"

definition contentTypeHandshake :: byte where
  "contentTypeHandshake = CHR 0x16"

definition handshakeTypeClientHello :: byte where
  "handshakeTypeClientHello = CHR 0x01"

definition extensionTypeSNI :: "16 word" where
  "extensionTypeSNI = 0x0000"

definition sniNameTypeHostname :: byte where
  "sniNameTypeHostname = CHR 0x00"

definition parseSNIExtension :: "bytes \<Rightarrow> string result" where
  "parseSNIExtension data =
     (if len data < 5 then Err ErrInvalidData
      else
        bindR (reslice data 0 2) (\<lambda>b02.
        bindR (Uint16 b02) (\<lambda>listLength.
        let pos = 2 in
        if pos \<ge> len data then Err ErrInvalidData
        else
          bindR (index data pos) (\<lambda>nameType.
          let pos = pos + 1 in
          if nameType \<noteq> sniNameTypeHostname then Err ErrNoSNI
          else if pos + 2 > len data then Err ErrInvalidData
          else
            bindR (reslice data pos (pos + 2)) (\<lambda>bn.
            bindR (Uint16 bn) (\<lambda>w.
            let nameLength = unat w; pos = pos + 2 in
            if pos + nameLength > len data then Err ErrInvalidData
            else
              bindR (reslice data pos (pos + nameLength)) (\<lambda>name.
              let hostname = stringOf name in
              if hostname = [] then Err ErrNoSNI else Ok hostname)))))))"

text \<open>
  The loop \<open>for pos+4 <= extensionsEnd\<close> of \<open>ExtractSNI\<close>. Every iteration that goes on
  moves \<open>pos\<close> forward by at least 4.
\<close>

function extensionsLoop :: "bytes \<Rightarrow> nat \<Rightarrow> nat \<Rightarrow> string result" where
  "extensionsLoop data pos extensionsEnd =
     (if pos + 4 \<le> extensionsEnd then
        (case reslice data pos (pos + 2) of
           Panic \<Rightarrow> Panic
         | Err e \<Rightarrow> Err e
         | Ok bt \<Rightarrow>
            (case Uint16 bt of
               Panic \<Rightarrow> Panic
             | Err e \<Rightarrow> Err e
             | Ok extType \<Rightarrow>
                (case reslice data (pos + 2) (pos + 4) of
                   Panic \<Rightarrow> Panic
                 | Err e \<Rightarrow> Err e
                 | Ok bl \<Rightarrow>
                    (case Uint16 bl of
                       Panic \<Rightarrow> Panic
                     | Err e \<Rightarrow> Err e
                     | Ok w \<Rightarrow>
                        (let extLength = unat w; pos' = pos + 4 in
                         if pos' + extLength > len data then Err ErrInvalidData
                         else if extType = extensionTypeSNI then
                           bindR (reslice data pos' (pos' + extLength)) parseSNIExtension
                         else extensionsLoop data (pos' + extLength) extensionsEnd)))))
      else Err ErrNoSNI)"
  by pat_completeness auto
termination
  by (relation "measure (\<lambda>(data, pos, extensionsEnd). extensionsEnd - pos)") auto

declare extensionsLoop.simps [simp del]

definition ExtractSNI :: "bytes \<Rightarrow> string result" where
  "ExtractSNI data =
     (if len data < 5 then Err ErrInvalidData
      else
        bindR (index data 0) (\<lambda>contentType.
        bindR (reslice data 3 5) (\<lambda>b35.
        bindR (Uint16 b35) (\<lambda>recordLength.
        if contentType \<noteq> contentTypeHandshake then Err ErrNotHandshake
        else if len data < unat (5 + recordLength) then Err ErrInvalidData
        else if len data < 9 then Err ErrInvalidData
        else
          bindR (index data 5) (\<lambda>handshakeType.
          if handshakeType \<noteq> handshakeTypeClientHello then Err ErrNotClientHello
          else
            (let pos = 9; pos = pos + 2; pos = pos + 32 in
             if pos \<ge> len data then Err ErrInvalidData
             else
               bindR (index data pos) (\<lambda>sid.
               let sessionIDLength = of_char sid; pos = pos + (1 + sessionIDLength) in
               if pos + 2 > len data then Err ErrInvalidData
               else
                 bindR (reslice data pos (pos + 2)) (\<lambda>bc.
                 bindR (Uint16 bc) (\<lambda>wc.
                 let cipherSuitesLength = unat wc; pos = pos + (2 + cipherSuitesLength) in
                 if pos \<ge> len data then Err ErrInvalidData
                 else
                   bindR (index data pos) (\<lambda>cm.
                   let compressionMethodsLength = of_char cm;
                       pos = pos + (1 + compressionMethodsLength) in
                   if pos + 2 > len data then Err ErrInvalidData
                   else
                     bindR (reslice data pos (pos + 2)) (\<lambda>be.
                     bindR (Uint16 be) (\<lambda>we.
                     let extensionsLength = unat we; pos = pos + 2;
                         extensionsEnd = pos + extensionsLength in
                     extensionsLoop data pos extensionsEnd))))))))))))"

subsection \<open>A well-formed ClientHello in the words of the specification\<close>

text \<open>
  Section 4.A of the specification lists what the first bytes of a TLS connection must
  hold: a record of type Handshake (\<open>0x16\<close>) with a handshake message of type ClientHello
  (\<open>0x01\<close>); in the message the 2-byte client version, the 32-byte random, the session id
  behind its 1-byte length, the cipher suites behind their 2-byte length, the compression
  methods behind their 1-byte length and the extensions behind their 2-byte length; among
  the extensions one of type \<open>server_name\<close> (\<open>0x0000\<close>) that holds the server-name list,
  whose first entry has name-type 0 and a name that is not empty. All length fields are
  in network byte order, and a truncated or overflowing length field at any step makes
  the input invalid. \<open>specClientHelloSNI\<close> reads this strictly: every length field must fit
  into what holds it (the record into the bytes read, the handshake message into the
  record, each vector into the message, each extension into the block of extensions, the
  name into the server-name list). It gives the name, or \<open>None\<close> when the bytes are not a
  well-formed ClientHello that carries a server name.

  \<open>field n bs\<close> splits \<open>n\<close> bytes off \<open>bs\<close>, and fails when there are fewer; \<open>beNat\<close> is the
  number that bytes in network byte order denote.
\<close>

definition field :: "nat \<Rightarrow> byte list \<Rightarrow> (byte list \<times> byte list) option" where
  "field n bs = (if n \<le> length bs then Some (take n bs, drop n bs) else None)"

definition beNat :: "byte list \<Rightarrow> nat" where
  "beNat bs = foldl (\<lambda>a c. a * 256 + of_char c) 0 bs"

definition specServerName :: "byte list \<Rightarrow> string option" where
  "specServerName body =
     do {
       (listLength, r) \<leftarrow> field 2 body;
       (serverNameList, _) \<leftarrow> field (beNat listLength) r;
       (nameType, r1) \<leftarrow> field 1 serverNameList;
       (nameLength, r2) \<leftarrow> field 2 r1;
       (name, _) \<leftarrow> field (beNat nameLength) r2;
       if nameType = [CHR 0x00] \<and> name \<noteq> [] then Some name else None
     }"

function specFindSNI :: "byte list \<Rightarrow> string option" where
  "specFindSNI exts =
     (case field 4 exts of
        None \<Rightarrow> None
      | Some (header, r) \<Rightarrow>
          (case field (beNat (drop 2 header)) r of
             None \<Rightarrow> None
           | Some (body, r') \<Rightarrow>
               if beNat (take 2 header) = 0 then specServerName body else specFindSNI r'))"
  by pat_completeness auto
termination
  by (relation "measure length") (auto simp: field_def split: if_splits)

declare specFindSNI.simps [simp del]

definition specClientHelloSNI :: "byte list \<Rightarrow> string option" where
  "specClientHelloSNI bs =
     do {
       (recordHeader, r) \<leftarrow> field 5 bs;
       (record, _) \<leftarrow> field (beNat (drop 3 recordHeader)) r;
       (handshakeHeader, r1) \<leftarrow> field 4 record;
       (hello, _) \<leftarrow> field (beNat (drop 1 handshakeHeader)) r1;
       (versionAndRandom, r2) \<leftarrow> field 34 hello;
       (sessionIDLength, r3) \<leftarrow> field 1 r2;
       (sessionID, r4) \<leftarrow> field (beNat sessionIDLength) r3;
       (cipherSuitesLength, r5) \<leftarrow> field 2 r4;
       (cipherSuites, r6) \<leftarrow> field (beNat cipherSuitesLength) r5;
       (compressionMethodsLength, r7) \<leftarrow> field 1 r6;
       (compressionMethods, r8) \<leftarrow> field (beNat compressionMethodsLength) r7;
       (extensionsLength, r9) \<leftarrow> field 2 r8;
       (extensions, _) \<leftarrow> field (beNat extensionsLength) r9;
       if take 1 recordHeader = [CHR 0x16] \<and> take 1 handshakeHeader = [CHR 0x01]
       then specFindSNI extensions else None
     }"

section \<open>The transparent proxy (internal/proxy/proxy.go)\<close>

subsection \<open>Reading the HTTP request head\<close>

text \<open>
  The client connection delivers the bytes \<open>stream\<close> and then fails (end of file or the
  read deadline). \<open>bufio.Reader.ReadString\<close> hands out the bytes up to and including the
  first delimiter, or everything that is left together with an error when there is no
  delimiter. The second component of the result is what the reader has not handed out.

  \<open>SplitN2 s c\<close> is \<open>strings.SplitN(s, string(c), 2)\<close> and \<open>Index s c\<close> is
  \<open>strings.Index(s, string(c))\<close>, for a separator of one byte.
\<close>

definition ReadString :: "byte list \<Rightarrow> byte \<Rightarrow> (string \<times> bool) \<times> byte list" where
  "ReadString stream delim =
     (if delim \<in> set stream
      then ((takeWhile (\<lambda>c. c \<noteq> delim) stream @ [delim], False),
            tl (dropWhile (\<lambda>c. c \<noteq> delim) stream))
      else ((stream, True), []))"

definition SplitN2 :: "string \<Rightarrow> char \<Rightarrow> string list" where
  "SplitN2 s c =
     (if c \<in> set s
      then [takeWhile (\<lambda>x. x \<noteq> c) s, tl (dropWhile (\<lambda>x. x \<noteq> c) s)]
      else [s])"

definition Index :: "string \<Rightarrow> char \<Rightarrow> int" where
  "Index s c = (if c \<in> set s then int (length (takeWhile (\<lambda>x. x \<noteq> c) s)) else - 1)"

datatype httpError = FailedToReadRequestLine | NoHostHeaderFound

text \<open>
  The header loop of \<open>handleHTTP\<close>: it leaves \<open>host\<close> empty when a read fails or the
  blank line comes first, and panics when \<open>SplitN(line, ":", 2)\<close> has no second element.
\<close>

function findHost :: "unicode \<Rightarrow> byte list \<Rightarrow> (httpError, string) outcome \<times> byte list" where
  "findHost U stream =
     (case ReadString stream (CHR 0x0A) of
        ((line, err), rest) \<Rightarrow>
          if err \<or> line = [CHR 0x0D, CHR 0x0A] \<or> line = [CHR 0x0A] then (Ok [], rest)
          else if HasPrefix (ToLower U line) ''host:'' then
            (let parts = SplitN2 line (CHR '':'') in
             if 1 < length parts then (Ok (TrimSpace U (parts ! 1)), rest) else (Panic, rest))
          else findHost U rest)"
  by pat_completeness auto
termination
proof (relation "measure (\<lambda>(U, stream). length stream)")
  show "wf (measure (\<lambda>(U, stream). length stream))"
    by simp
next
  fix U :: unicode and stream rest :: "byte list" and x :: "string \<times> bool"
    and line :: string and err :: bool
  assume rs: "(x, rest) = ReadString stream (CHR 0x0A)" and x: "(line, err) = x"
    and go: "\<not> (err \<or> line = [CHR 0x0D, CHR 0x0A] \<or> line = [CHR 0x0A])"
  from rs x go have inl: "CHR 0x0A \<in> set stream"
    and rest: "rest = tl (dropWhile (\<lambda>c. c \<noteq> CHR 0x0A) stream)"
    by (auto simp: ReadString_def split: if_splits)
  from inl have "dropWhile (\<lambda>c. c \<noteq> CHR 0x0A) stream \<noteq> []"
    by simp
  then have "length rest < length (dropWhile (\<lambda>c. c \<noteq> CHR 0x0A) stream)"
    unfolding rest by (cases "dropWhile (\<lambda>c. c \<noteq> CHR 0x0A) stream") simp_all
  also have "\<dots> \<le> length stream"
    by (rule length_dropWhile_le)
  finally show "((U, rest), (U, stream)) \<in> measure (\<lambda>(U, stream). length stream)"
    by simp
qed

declare findHost.simps [simp del]

text \<open>
  \<open>parseRequest\<close> is the part of \<open>handleHTTP\<close> between the recovery of the original
  destination and the verdict: it reads the request line, runs the header loop, gives up
  when \<open>host\<close> is empty and cuts the host at the first colon. Its result holds the request
  line, the host that is handed to \<open>isBlocked\<close>, and the bytes the reader has not handed
  out yet.
\<close>

record request =
  reqLine :: string
  reqHost :: string
  reqUnread :: "byte list"

definition parseRequest :: "unicode \<Rightarrow> byte list \<Rightarrow> (httpError, request) outcome" where
  "parseRequest U stream =
     (case ReadString stream (CHR 0x0A) of
        ((line0, err), rest0) \<Rightarrow>
          if err then Err FailedToReadRequestLine
          else
            (case findHost U rest0 of
               (Panic, rest) \<Rightarrow> Panic
             | (Err e, rest) \<Rightarrow> Err e
             | (Ok h, rest) \<Rightarrow>
                 if h = [] then Err NoHostHeaderFound
                 else
                   (let idx = Index h (CHR '':'');
                        h' = (if idx \<noteq> - 1 then take (nat idx) h else h)
                    in Ok \<lparr>reqLine = line0, reqHost = h', reqUnread = rest\<rparr>)))"

subsection \<open>The connection handlers\<close>

text \<open>
  What a handler does to its two sockets is a list of events, in order. The environment
  of one connection says what \<open>getOriginalDst\<close> returned (\<open>None\<close> is an error) and
  whether the upstream dial and the upstream write of the initial data succeed. A panic
  in a handler goroutine runs the deferred \<open>Close\<close> and then ends the process. Log lines
  and deadlines are left out. \<open>Dial addr mark\<close> is the dial of \<open>addr\<close> on a socket that
  carries the firewall mark \<open>mark\<close>; \<open>Splice\<close> stands for the two copying goroutines of
  \<open>forwardConnection\<close>.
\<close>

datatype event =
  ClientWrite "byte list"
| Dial string nat
| UpstreamWrite "byte list"
| UpstreamWriteFailed
| Splice
| CloseUpstream
| CloseClient
| Crash

record connEnv =
  originalDst :: "string option"
  dialSucceeds :: bool
  upstreamWriteSucceeds :: bool

definition ProxyMark :: nat where
  "ProxyMark = 50"

definition forwardConnection :: "connEnv \<Rightarrow> string \<Rightarrow> byte list \<Rightarrow> event list" where
  "forwardConnection env destAddr initialData =
     Dial destAddr ProxyMark #
     (if \<not> dialSucceeds env then []
      else if length initialData > 0 \<and> \<not> upstreamWriteSucceeds env
        then [UpstreamWriteFailed, CloseUpstream]
      else (if length initialData > 0 then [UpstreamWrite initialData] else [])
           @ [Splice, CloseUpstream])"

definition tlsAlert :: "byte list" where
  "tlsAlert = [CHR 0x15, CHR 0x03, CHR 0x03, CHR 0x00, CHR 0x02, CHR 0x01, CHR 0x00]"

definition sendTLSAlert :: "event list" where
  "sendTLSAlert = [ClientWrite tlsAlert]"

definition forbiddenResponse :: string where
  "forbiddenResponse =
     ''HTTP/1.1 403 Forbidden'' @ [CHR 0x0D, CHR 0x0A] @
     ''Content-Type: text/html'' @ [CHR 0x0D, CHR 0x0A] @
     ''Connection: close'' @ [CHR 0x0D, CHR 0x0A] @
     [CHR 0x0D, CHR 0x0A] @
     ''<html><body><h1>403 Forbidden</h1><p>Blocked by focusd</p></body></html>''"

definition handleHTTP :: "unicode \<Rightarrow> string list \<Rightarrow> connEnv \<Rightarrow> byte list \<Rightarrow> event list" where
  "handleHTTP U blockedDomains env stream =
     (case originalDst env of
        None \<Rightarrow> [CloseClient]
      | Some origDst \<Rightarrow>
          (case parseRequest U stream of
             Panic \<Rightarrow> [CloseClient, Crash]
           | Err e \<Rightarrow> [CloseClient]
           | Ok r \<Rightarrow>
               if isBlocked U blockedDomains (reqHost r)
               then [ClientWrite forbiddenResponse, CloseClient]
               else forwardConnection env origDst (reqLine r) @ [CloseClient]))"

text \<open>
  \<open>handleHTTPS\<close> reads once into a fresh buffer of 16384 zero bytes; \<open>firstRead chunk\<close> is
  the slice \<open>buf[:n]\<close> after a read that returned the bytes \<open>chunk\<close> (at most 16384 of
  them are taken). Its capacity stays 16384. The argument \<open>rd\<close> of the handler is the
  outcome of that read: \<open>None\<close> for an error, \<open>Some chunk\<close> otherwise.
\<close>

definition firstRead :: "byte list \<Rightarrow> bytes" where
  "firstRead chunk =
     (let n = min (length chunk) 16384
      in \<lparr>arr = take n chunk @ replicate (16384 - n) (CHR 0x00), len = n\<rparr>)"

definition handleHTTPS ::
  "unicode \<Rightarrow> string list \<Rightarrow> connEnv \<Rightarrow> byte list option \<Rightarrow> event list" where
  "handleHTTPS U blockedDomains env rd =
     (case originalDst env of
        None \<Rightarrow> [CloseClient]
      | Some origDst \<Rightarrow>
          (case rd of
             None \<Rightarrow> [CloseClient]
           | Some chunk \<Rightarrow>
               (let clientHello = firstRead chunk in
                case ExtractSNI clientHello of
                  Panic \<Rightarrow> [CloseClient, Crash]
                | Err e \<Rightarrow> sendTLSAlert @ [CloseClient]
                | Ok hostname \<Rightarrow>
                    if isBlocked U blockedDomains hostname
                    then sendTLSAlert @ [CloseClient]
                    else forwardConnection env origDst (contents clientHello) @ [CloseClient])))"

subsection \<open>Slices that differ in capacity only\<close>

text \<open>
  \<open>widened s t\<close>: the slice \<open>t\<close> has the length and the bytes of \<open>s\<close> up to the capacity of
  \<open>s\<close>, and possibly more capacity. \<open>agree r r'\<close> relates the results of one function on
  two such slices: they are equal, unless the first is a panic, in which case the second
  is a panic or \<open>ErrInvalidData\<close>.
\<close>

definition widened :: "bytes \<Rightarrow> bytes \<Rightarrow> bool" where
  "widened s t =
     (len t = len s \<and> len s \<le> cap s \<and> cap s \<le> cap t \<and> take (cap s) (arr t) = arr s)"

definition agree :: "'a result \<Rightarrow> 'a result \<Rightarrow> bool" where
  "agree r r' =
     ((r = Panic \<and> (r' = Panic \<or> r' = Err ErrInvalidData)) \<or> (r \<noteq> Panic \<and> r' = r))"

subsection \<open>The test helpers of the SNI extractor (parser_test.go)\<close>

text \<open>
  \<open>buildSimpleClientHello\<close> and \<open>buildSNIExtension\<close> build a minimal ClientHello whose
  only extension is the SNI extension. \<open>byteOf n\<close> is the conversion \<open>byte(n)\<close> of an
  \<open>int\<close>, which keeps the low 8 bits.
\<close>

definition byteOf :: "nat \<Rightarrow> byte" where
  "byteOf n = char_of n"

definition buildSNIExtension :: "string \<Rightarrow> byte list" where
  "buildSNIExtension hostname =
     (let serverName =
            [CHR 0x00, byteOf (length hostname div 256), byteOf (length hostname)] @ hostname;
          serverNameList =
            [byteOf (length serverName div 256), byteOf (length serverName)] @ serverName
      in [CHR 0x00, CHR 0x00,
          byteOf (length serverNameList div 256), byteOf (length serverNameList)]
         @ serverNameList)"

definition buildSimpleClientHello :: "string \<Rightarrow> byte list" where
  "buildSimpleClientHello hostname =
     (let sniExt = buildSNIExtension hostname;
          extensions = [CHR 0x00, byteOf (length sniExt)] @ sniExt;
          clientHello =
            [CHR 0x03, CHR 0x03] @ replicate 32 (CHR 0x00) @ [CHR 0x00]
            @ [CHR 0x00, CHR 0x02, CHR 0x00, CHR 0x2f] @ [CHR 0x01, CHR 0x00] @ extensions;
          handshake =
            [CHR 0x01, CHR 0x00, byteOf (length clientHello div 256), byteOf (length clientHello)]
            @ clientHello
      in [CHR 0x16, CHR 0x03, CHR 0x03,
          byteOf (length handshake div 256), byteOf (length handshake)]
         @ handshake)"

section \<open>Concrete inputs used by the examples below\<close>

text \<open>
  The examples use ASCII strings only, on which the Unicode fallbacks are never called;
  \<open>asciiOnly\<close> fills them with the identity.
\<close>

definition asciiOnly :: unicode where
  "asciiOnly = \<lparr>mapToLower = (\<lambda>s. s), trimFuncIsSpace = (\<lambda>s. s), trimRightFuncIsSpace = (\<lambda>s. s)\<rparr>"




text \<open>A disk on which the state directory \<open>/var/lib/focusd\<close> is a regular file.\<close>

definition fileInTheWay :: filesystem where
  "fileInTheWay =
     \<lparr>nodes = [''/var/lib/focusd'' \<mapsto> RegularFile ''not a directory''],
      filepathDir = (\<lambda>p. ''/var/lib/focusd'')\<rparr>"

definition corruptDisk :: filesystem where
  "corruptDisk =
     \<lparr>nodes = [''/var/lib/focusd/state'' \<mapsto> RegularFile ''ENABLED''],
      filepathDir = (\<lambda>p. ''/var/lib/focusd'')\<rparr>"

definition emptyListYaml :: "string \<Rightarrow> string list option" where
  "emptyListYaml d = (if d = ''domains: []'' then Some [] else None)"

definition blocklistDisk :: filesystem where
  "blocklistDisk =
     \<lparr>nodes = [''/etc/focusd/blocklist.yml'' \<mapsto> RegularFile ''domains: []''],
      filepathDir = (\<lambda>p. ''/etc/focusd'')\<rparr>"

definition fileConfig :: Config where
  "fileConfig =
     \<lparr>BlockedDomains = [], BlocklistPath = ''/etc/focusd/blocklist.yml'',
      RefreshIntervalMinutes = 60, USBKeyPath = ''/run/media/*/FOCUSD/focusd.key'',
      TokenHashPath = ''/etc/focusd/token.sha256'',
      DnsmasqConfigPath = ''/run/focusd/dnsmasq.conf''\<rparr>"

text \<open>A resolver for which the apex name fails and only the \<open>www.\<close> name resolves.\<close>

definition wwwOnlyLookup :: "string \<Rightarrow> byte list list option" where
  "wwwOnlyLookup name =
     (if name = ''www.example.com'' then Some [[CHR 93, CHR 184, CHR 216, CHR 34]] else None)"

text \<open>
  A ClientHello cut off right after its extensions-length field, which announces four
  bytes of extensions: record header, handshake header, version, 32 random bytes, empty
  session id, no cipher suites, no compression methods; 49 bytes in all.
\<close>

definition cutOffHello :: "byte list" where
  "cutOffHello =
     [CHR 0x16, CHR 0x03, CHR 0x01, CHR 0x00, CHR 0x2c,
      CHR 0x01, CHR 0x00, CHR 0x00, CHR 0x28,
      CHR 0x03, CHR 0x03] @ replicate 32 (CHR 0x00) @
     [CHR 0x00, CHR 0x00, CHR 0x00, CHR 0x00, CHR 0x00, CHR 0x04]"

text \<open>
  A first read that fills the whole buffer: 16335 bytes of cipher suites put the
  extensions-length field, again announcing four bytes, into the last two of the 16384
  bytes.
\<close>

definition fullBufferHello :: "byte list" where
  "fullBufferHello =
     [CHR 0x16, CHR 0x03, CHR 0x01, CHR 0x00, CHR 0x00,
      CHR 0x01, CHR 0x00, CHR 0x00, CHR 0x00,
      CHR 0x03, CHR 0x03] @ replicate 32 (CHR 0x00) @
     [CHR 0x00, CHR 0x3f, CHR 0xcf] @ replicate 16335 (CHR 0x00) @
     [CHR 0x00, CHR 0x00, CHR 0x04]"

text \<open>
  A record that is complete but not a well-formed ClientHello: its handshake-length
  field announces \<open>0xffffff\<close> bytes, its extensions-length field announces 4 bytes in front
  of an SNI extension of 20, and the server-name list announces \<open>0xffff\<close> bytes in an
  extension of 16. The name in it is \<open>example.org\<close>.
\<close>

definition lenientHello :: "byte list" where
  "lenientHello =
     [CHR 0x16, CHR 0x03, CHR 0x03, CHR 0x00, CHR 0x40,
      CHR 0x01, CHR 0xff, CHR 0xff, CHR 0xff,
      CHR 0x03, CHR 0x03] @ replicate 32 (CHR 0x00) @
     [CHR 0x00, CHR 0x00, CHR 0x00, CHR 0x00, CHR 0x00, CHR 0x04,
      CHR 0x00, CHR 0x00, CHR 0x00, CHR 0x10,
      CHR 0xff, CHR 0xff, CHR 0x00, CHR 0x00, CHR 0x0b] @ ''example.org''"

definition crlf :: string where
  "crlf = [CHR 0x0D, CHR 0x0A]"

definition redirected :: connEnv where
  "redirected =
     \<lparr>originalDst = Some ''93.184.216.34:443'', dialSucceeds = True,
      upstreamWriteSucceeds = True\<rparr>"

definition plainRequest :: "byte list" where
  "plainRequest = ''GET / HTTP/1.1'' @ crlf @ ''Host: example.org'' @ crlf @ crlf"

definition allowedHello :: "byte list" where
  "allowedHello = buildSimpleClientHello ''example.org''"

definition blockedHello :: "byte list" where
  "blockedHello = buildSimpleClientHello ''www.youtube.com''"

definition stalledHello :: "byte list" where
  "stalledHello = [CHR 0x16, CHR 0x03, CHR 0x01, CHR 0x00, CHR 0xff]"

definition blockedRequest :: "byte list" where
  "blockedRequest = ''GET / HTTP/1.1'' @ crlf @ ''Host: old.reddit.com:80'' @ crlf @ crlf"

definition hostlessRequest :: "byte list" where
  "hostlessRequest = ''GET / HTTP/1.1'' @ crlf @ crlf"



section \<open>Properties of the matcher\<close>

lemma isBlockedLoop_iff:
  "isBlockedLoop U host rules = (\<exists>r \<in> set rules. blockedBy U host r)"
  by (induction rules) auto

lemma blockedBy_iff:
  "blockedBy U host r =
     (specMatch host (specNorm U r) \<or>
      (HasPrefix (specNorm U r) ''www.'' \<and> specMatch host (drop 4 (specNorm U r))))"
proof -
  have four: "length ''www.'' = 4" by simp
  show ?thesis
    unfolding blockedBy_def specMatch_def specNorm_def TrimPrefix_def Let_def four
    by auto
qed

text \<open>
  C2. For every hostname \<open>h\<close> and rule list \<open>rules\<close>, \<open>isBlocked\<close> returns true exactly
  when some rule, or the bare form of a rule that begins with \<open>"www."\<close>, equals \<open>h\<close> or
  is a dot-separated suffix of \<open>h\<close>, both compared after lowercasing and stripping one
  trailing dot.
\<close>

theorem isBlocked_iff_specMatches:
  "isBlocked U rules h = specMatches U h rules"
  by (simp add: isBlocked_def isBlockedLoop_iff blockedBy_iff specMatches_def specNorm_def)


section \<open>Properties of the state store\<close>





lemma IsEnabled_RegularFile:
  "nodes fs (path s) = Some (RegularFile d) \<Longrightarrow>
   IsEnabled U fs s = Inr (TrimSpace U d = stateEnabled)"
  by (simp add: IsEnabled_def ReadFile_def)



lemma IsEnabled_absent:
  assumes "nodes fs (path s) = None"
  shows "IsEnabled U fs s =
           (if fileAbove fs (length (path s)) (path s)
            then Inl (ReadingStateFile ErrNotDirectory) else Inr True)"
  using assms by (simp add: IsEnabled_def ReadFile_def IsNotExist_def)

lemma fileAbove_fileInTheWay: "fileAbove fileInTheWay (Suc n) p"
  by (simp add: fileInTheWay_def isFile_def)


text \<open>
  C8, as the claim states it, fails in its second half: on a disk where the state
  directory \<open>/var/lib/focusd\<close> is a regular file, the state file is absent, the read fails
  with \<open>ENOTDIR\<close> and \<open>IsEnabled\<close> returns false with an error, not enabled.
\<close>

theorem absent_state_file_counterexample:
  "nodes fileInTheWay (path (New [])) = None \<and>
   IsEnabled asciiOnly fileInTheWay (New []) = Inl (ReadingStateFile ErrNotDirectory) \<and>
   IsEnabled asciiOnly fileInTheWay (New []) \<noteq> Inr True"
proof -
  have n: "nodes fileInTheWay (path (New [])) = None"
    by (simp add: fileInTheWay_def New_def DefaultStatePath_def)
  have "length (path (New [])) = Suc 20"
    by (simp add: New_def DefaultStatePath_def)
  then have "fileAbove fileInTheWay (length (path (New []))) (path (New []))"
    by (simp only: fileAbove_fileInTheWay)
  with n show ?thesis
    by (simp add: IsEnabled_absent)
qed




text \<open>
  C10. When the state file exists and its content, trimmed of white space, is anything
  but the token \<open>enabled\<close>, \<open>IsEnabled\<close> returns false and no error.
\<close>

theorem IsEnabled_unknown_token:
  assumes "nodes fs (path s) = Some (RegularFile d)"
    and "TrimSpace U d \<noteq> stateEnabled"
  shows "IsEnabled U fs s = Inr False"
  using assms by (simp add: IsEnabled_RegularFile)

theorem IsEnabled_unknown_token_witness:
  "nodes corruptDisk (path (New [])) = Some (RegularFile ''ENABLED'') \<and>
   TrimSpace asciiOnly ''ENABLED'' \<noteq> stateEnabled \<and>
   IsEnabled asciiOnly corruptDisk (New []) = Inr False"
proof -
  have n: "nodes corruptDisk (path (New [])) = Some (RegularFile ''ENABLED'')"
    by (simp add: corruptDisk_def New_def DefaultStatePath_def)
  have t: "TrimSpace asciiOnly ''ENABLED'' \<noteq> stateEnabled"
    by (simp add: TrimSpace_def trimStop.simps isASCII_def asciiSpace_def runeSelf_def
        stateEnabled_def)
  from n t IsEnabled_unknown_token [OF n t] show ?thesis by simp
qed

section \<open>Properties of blocklist loading\<close>

text \<open>
  C6, as the claim states it, fails: an empty inline list makes \<open>LoadBlocklist\<close> read the
  blocklist file, and a file that lists no domains is an error, not the empty rule set.
\<close>

theorem LoadBlocklist_empty_counterexample:
  "LoadBlocklist emptyListYaml blocklistDisk fileConfig = Inl BlocklistFileContainsNoDomains \<and>
   LoadBlocklist emptyListYaml blocklistDisk fileConfig \<noteq> Inr []"
  by (simp add: LoadBlocklist_def emptyListYaml_def blocklistDisk_def fileConfig_def ReadFile_def)

text \<open>
  C6, amended. \<open>LoadBlocklist\<close> never returns the empty rule set: with an empty inline
  list, a readable blocklist file that parses to zero domains is rejected with the error
  "blocklist file contains no domains". Under the empty rule set the matcher blocks no
  hostname.
\<close>

theorem LoadBlocklist_rejects_empty:
  "LoadBlocklist yamlDomains fs c \<noteq> Inr [] \<and>
   (BlockedDomains c = [] \<and> BlocklistPath c \<noteq> [] \<and>
    ReadFile fs (BlocklistPath c) = Inr d \<and> yamlDomains d = Some []
      \<longrightarrow> LoadBlocklist yamlDomains fs c = Inl BlocklistFileContainsNoDomains) \<and>
   \<not> isBlocked U [] h"
  by (auto simp: LoadBlocklist_def isBlocked_def split: sum.splits option.splits)

theorem LoadBlocklist_rejects_empty_witness:
  "BlockedDomains fileConfig = [] \<and> BlocklistPath fileConfig \<noteq> [] \<and>
   ReadFile blocklistDisk (BlocklistPath fileConfig) = Inr ''domains: []'' \<and>
   emptyListYaml ''domains: []'' = Some [] \<and>
   LoadBlocklist emptyListYaml blocklistDisk fileConfig = Inl BlocklistFileContainsNoDomains \<and>
   \<not> isBlocked asciiOnly [] ''example.com''"
proof -
  have h: "BlockedDomains fileConfig = [] \<and> BlocklistPath fileConfig \<noteq> [] \<and>
      ReadFile blocklistDisk (BlocklistPath fileConfig) = Inr ''domains: []'' \<and>
      emptyListYaml ''domains: []'' = Some []"
    by (simp add: fileConfig_def blocklistDisk_def ReadFile_def emptyListYaml_def)
  from h LoadBlocklist_rejects_empty [where yamlDomains = emptyListYaml and fs = blocklistDisk
      and c = fileConfig and d = "''domains: []''" and U = asciiOnly
      and h = "''example.com''"]
  show ?thesis by simp
qed

section \<open>Properties of the resolver\<close>

text \<open>
  C9 does not hold of the code: when resolution of the base rule fails, the loop
  continues with the next rule and the \<open>www.\<close> variant is never handed to the resolver.
  For the single rule \<open>example.com\<close> and a resolver that knows only
  \<open>www.example.com\<close>, the only name queried is \<open>example.com\<close> and the result is empty.
\<close>

theorem Resolve_skips_www_after_failure:
  "Resolve wwwOnlyLookup ipString [''example.com''] =
     ([], \<lparr>ipSet = [], queried = [''example.com''], warned = [''example.com'']\<rparr>)"
  by (simp add: Resolve_def resolveDomain_def wwwOnlyLookup_def)

section \<open>The SNI extractor on slices of larger capacity\<close>

lemma agree_refl: "agree r r"
  by (auto simp: agree_def)

lemma agree_if:
  "(c \<Longrightarrow> agree a a') \<Longrightarrow> (\<not> c \<Longrightarrow> agree b b') \<Longrightarrow> agree (if c then a else b) (if c then a' else b')"
  by simp

lemma nth_widened: "widened s t \<Longrightarrow> i < len s \<Longrightarrow> arr t ! i = arr s ! i"
  unfolding widened_def cap_def
  by (metis nth_take order_less_le_trans)

lemma index_widened: "widened s t \<Longrightarrow> index t i = index s i"
  by (simp add: index_def nth_widened) (simp add: widened_def)

lemma Uint16_widened: "widened s t \<Longrightarrow> Uint16 t = Uint16 s"
  by (simp add: Uint16_def index_widened)

lemma reslice_widened:
  assumes "widened s t" and "lo \<le> hi" and "hi \<le> cap s"
  shows "\<exists>s' t'. reslice s lo hi = Ok s' \<and> reslice t lo hi = Ok t' \<and> widened s' t' \<and> len s' = hi - lo"
proof -
  from assms(1) have w: "cap s \<le> cap t" "take (cap s) (arr t) = arr s"
    by (simp_all add: widened_def)
  have "take (cap s - lo) (drop lo (arr t)) = drop lo (arr s)"
    using w(2) by (metis drop_take)
  moreover have "hi - lo \<le> cap s - lo" "cap s - lo \<le> cap t - lo"
    using assms(2,3) w(1) by arith+
  ultimately have "widened \<lparr>arr = drop lo (arr s), len = hi - lo\<rparr> \<lparr>arr = drop lo (arr t), len = hi - lo\<rparr>"
    by (simp add: widened_def cap_def)
  moreover have "reslice t lo hi = Ok \<lparr>arr = drop lo (arr t), len = hi - lo\<rparr>"
    "reslice s lo hi = Ok \<lparr>arr = drop lo (arr s), len = hi - lo\<rparr>"
    using assms(2,3) w by (simp_all add: reslice_def)
  ultimately show ?thesis by simp
qed

lemma agree_index:
  "widened s t \<Longrightarrow> i < len s \<Longrightarrow> (\<And>x. agree (f x) (f' x)) \<Longrightarrow>
   agree (bindR (index s i) f) (bindR (index t i) f')"
  by (simp add: index_widened) (simp add: index_def bindR_def)

lemma agree_Uint16:
  "widened s t \<Longrightarrow> 1 < len s \<Longrightarrow> (\<And>x. agree (f x) (f' x)) \<Longrightarrow>
   agree (bindR (Uint16 s) f) (bindR (Uint16 t) f')"
  by (simp add: Uint16_widened) (simp add: Uint16_def index_def bindR_def)

lemma agree_reslice:
  assumes "widened s t" and "lo \<le> hi" and "hi \<le> len s"
    and "\<And>s' t'. widened s' t' \<Longrightarrow> len s' = hi - lo \<Longrightarrow> agree (f s') (f' t')"
  shows "agree (bindR (reslice s lo hi) f) (bindR (reslice t lo hi) f')"
proof -
  from assms(1,3) have "hi \<le> cap s" by (simp add: widened_def)
  with assms(1,2) obtain s' t' where "reslice s lo hi = Ok s'" "reslice t lo hi = Ok t'"
    "widened s' t'" "len s' = hi - lo"
    using reslice_widened by blast
  with assms(4) show ?thesis by (simp add: bindR_def)
qed

lemma stringOf_widened: "widened s t \<Longrightarrow> stringOf t = stringOf s"
  unfolding stringOf_def contents_def widened_def cap_def
  by (metis min.absorb2 take_take min.commute)

lemma parseSNIExtension_widened:
  assumes "widened s t"
  shows "agree (parseSNIExtension s) (parseSNIExtension t)"
proof -
  have l: "len t = len s" using assms by (simp add: widened_def)
  show ?thesis
    unfolding parseSNIExtension_def Let_def l
    by (intro agree_if agree_reslice agree_Uint16 agree_index agree_refl assms)
      (simp_all add: stringOf_widened agree_refl)
qed

lemma extensionsLoop_unfold:
  "extensionsLoop data pos extensionsEnd =
     (if pos + 4 \<le> extensionsEnd then
        bindR (reslice data pos (pos + 2)) (\<lambda>bt.
        bindR (Uint16 bt) (\<lambda>extType.
        bindR (reslice data (pos + 2) (pos + 4)) (\<lambda>bl.
        bindR (Uint16 bl) (\<lambda>w.
          if pos + 4 + unat w > len data then Err ErrInvalidData
          else if extType = extensionTypeSNI then
            bindR (reslice data (pos + 4) (pos + 4 + unat w)) parseSNIExtension
          else extensionsLoop data (pos + 4 + unat w) extensionsEnd))))
      else Err ErrNoSNI)"
  by (subst extensionsLoop.simps) (simp add: bindR_def Let_def split: outcome.splits)

lemma extensionsLoop_past_len:
  assumes "pos + 4 \<le> e" and "len s < pos + 4"
  shows "extensionsLoop s pos e = (if pos + 4 \<le> cap s then Err ErrInvalidData else Panic)"
  using assms
  by (subst extensionsLoop.simps)
    (auto simp: reslice_def Uint16_def index_def bindR_def Let_def)

lemma extensionsLoop_widened:
  assumes "widened s t"
  shows "agree (extensionsLoop s pos e) (extensionsLoop t pos e)"
proof (induction "e - pos" arbitrary: pos rule: less_induct)
  case less
  have l: "len t = len s" using assms by (simp add: widened_def)
  show ?case
  proof (cases "pos + 4 \<le> e")
    case False
    then show ?thesis by (simp add: extensionsLoop_unfold [of _ pos] agree_def)
  next
    case True
    show ?thesis
    proof (cases "pos + 4 \<le> len s")
      case inside: True
      have step: "agree (extensionsLoop s (pos + 4 + n) e) (extensionsLoop t (pos + 4 + n) e)" for n
        using True by (intro less) arith
      show ?thesis
        unfolding extensionsLoop_unfold [of _ pos] l
        by (intro agree_if agree_reslice agree_Uint16 agree_refl assms step)
          (use inside in \<open>simp_all add: parseSNIExtension_widened agree_refl\<close>)
    next
      case False
      then have "len s < pos + 4" "len t < pos + 4"
        by (simp_all add: l)
      moreover have "cap s \<le> cap t"
        using assms by (simp add: widened_def)
      ultimately show ?thesis
        using True by (simp add: extensionsLoop_past_len agree_def)
    qed
  qed
qed

lemma ExtractSNI_widened:
  assumes "widened s t"
  shows "agree (ExtractSNI s) (ExtractSNI t)"
proof -
  have l: "len t = len s" using assms by (simp add: widened_def)
  show ?thesis
    unfolding ExtractSNI_def Let_def l
    by (intro agree_if agree_reslice agree_Uint16 agree_index agree_refl assms extensionsLoop_widened)
      simp_all
qed

lemma widened_firstRead: "widened (mkSlice (take 16384 chunk)) (firstRead chunk)"
  by (simp add: widened_def mkSlice_def firstRead_def cap_def Let_def min_def)

lemma ExtractSNI_firstRead:
  "agree (ExtractSNI (mkSlice (take 16384 chunk))) (ExtractSNI (firstRead chunk))"
  by (rule ExtractSNI_widened [OF widened_firstRead])

lemma ExtractSNI_firstRead_eq:
  assumes "length chunk \<le> 16384" and "ExtractSNI (mkSlice chunk) = r" and "r \<noteq> Panic"
  shows "ExtractSNI (firstRead chunk) = r"
  using ExtractSNI_firstRead [of chunk] assms by (simp add: agree_def)

section \<open>What a successful SNI extraction says about its input\<close>








section \<open>Properties of the connection handlers\<close>


lemma contents_firstRead: "contents (firstRead chunk) = take 16384 chunk"
  by (simp add: contents_def firstRead_def Let_def min_def)

lemma ExtractSNI_lenientHello: "ExtractSNI (mkSlice lenientHello) = Ok ''example.org''"
  by code_simp

lemma length_lenientHello: "length lenientHello = 69"
  by (simp add: lenientHello_def)

lemma lenientHello_not_well_formed: "specClientHelloSNI lenientHello = None"
  by (simp add: specClientHelloSNI_def field_def beNat_def lenientHello_def)

lemma example_org_not_blocked: "\<not> isBlocked asciiOnly [''youtube.com''] ''example.org''"
  by code_simp

text \<open>
  C1, as the claim states it, fails: the extractor accepts more than well-formed
  ClientHellos. It never reads the handshake length and skips the server-name-list
  length, and it checks an extension against the end of the input, not against the end of
  the block of extensions. The 69 bytes of \<open>lenientHello\<close> are not a well-formed
  ClientHello, yet \<open>ExtractSNI\<close> returns the name \<open>example.org\<close> and the handler, with
  \<open>youtube.com\<close> blocked, dials the original destination and replays the bytes.
\<close>

theorem lenient_hello_is_dialed:
  "specClientHelloSNI lenientHello = None \<and>
   ExtractSNI (firstRead lenientHello) = Ok ''example.org'' \<and>
   \<not> isBlocked asciiOnly [''youtube.com''] ''example.org'' \<and>
   handleHTTPS asciiOnly [''youtube.com''] redirected (Some lenientHello) =
     [Dial ''93.184.216.34:443'' ProxyMark, UpstreamWrite lenientHello, Splice, CloseUpstream,
      CloseClient]"
proof -
  have l: "length lenientHello \<le> 16384"
    by (simp add: length_lenientHello)
  have e: "ExtractSNI (firstRead lenientHello) = Ok ''example.org''"
    by (rule ExtractSNI_firstRead_eq [OF l ExtractSNI_lenientHello]) simp
  have c: "contents (firstRead lenientHello) = lenientHello"
    using l by (simp add: contents_firstRead)
  have n: "lenientHello \<noteq> []"
    using length_lenientHello by auto
  have "handleHTTPS asciiOnly [''youtube.com''] redirected (Some lenientHello) =
     [Dial ''93.184.216.34:443'' ProxyMark, UpstreamWrite lenientHello, Splice, CloseUpstream,
      CloseClient]"
    by (simp add: handleHTTPS_def redirected_def e example_org_not_blocked
        forwardConnection_def Let_def c n)
  with lenientHello_not_well_formed e example_org_not_blocked show ?thesis
    by simp
qed



lemma ExtractSNI_blockedHello: "ExtractSNI (mkSlice blockedHello) = Ok ''www.youtube.com''"
  by code_simp

lemma ExtractSNI_stalledHello: "ExtractSNI (mkSlice stalledHello) = Err ErrInvalidData"
  by code_simp

lemma hello_lengths:
  "length allowedHello \<le> 16384" "length blockedHello \<le> 16384" "length stalledHello \<le> 16384"
  by code_simp+



lemma length_fullBufferHello: "length fullBufferHello = 16384"
  by (simp add: fullBufferHello_def)

lemma firstRead_fullBufferHello: "firstRead fullBufferHello = mkSlice fullBufferHello"
  by (simp add: firstRead_def mkSlice_def length_fullBufferHello)

lemma nth_fullBufferHello:
  "fullBufferHello ! 0 = CHR 0x16" "fullBufferHello ! 3 = CHR 0x00"
  "fullBufferHello ! 4 = CHR 0x00" "fullBufferHello ! 5 = CHR 0x01"
  "fullBufferHello ! 43 = CHR 0x00" "fullBufferHello ! 44 = CHR 0x3f"
  "fullBufferHello ! 45 = CHR 0xcf" "fullBufferHello ! 16381 = CHR 0x00"
  "fullBufferHello ! 16382 = CHR 0x00" "fullBufferHello ! 16383 = CHR 0x04"
  by (simp_all add: fullBufferHello_def nth_append)

lemma ExtractSNI_fullBufferHello: "ExtractSNI (mkSlice fullBufferHello) = Panic"
  by (simp add: ExtractSNI_def mkSlice_def index_def reslice_def cap_def Uint16_def bindR_def
      length_fullBufferHello nth_fullBufferHello contentTypeHandshake_def
      handshakeTypeClientHello_def Let_def extensionsLoop_past_len)

lemma ExtractSNI_cutOffHello:
  "ExtractSNI (mkSlice cutOffHello) = Panic"
  "ExtractSNI \<lparr>arr = cutOffHello @ replicate 4 (CHR 0x00), len = 49\<rparr> = Err ErrInvalidData"
  by code_simp+

text \<open>
  C3 does not hold of the code: the extensions loop reads the four header bytes of the
  next extension after checking \<open>pos+4\<close> against \<open>extensionsEnd\<close> only, which comes from the
  input and is never compared with \<open>len(data)\<close>. On the 49 bytes of \<open>cutOffHello\<close> as a
  slice whose capacity is its length the slice expression \<open>data[49:51]\<close> panics; with
  spare capacity the same call reads four bytes beyond the input and then returns
  \<open>ErrInvalidData\<close>. In the HTTPS handler a first read of 16384 bytes that ends with such
  an extensions-length field makes \<open>data[16384:16386]\<close> panic, which ends the process.
\<close>

theorem ExtractSNI_reads_past_input:
  "ExtractSNI (mkSlice cutOffHello) = Panic \<and>
   ExtractSNI \<lparr>arr = cutOffHello @ replicate 4 (CHR 0x00), len = 49\<rparr> = Err ErrInvalidData \<and>
   handleHTTPS U blockedDomains redirected (Some fullBufferHello) = [CloseClient, Crash]"
  by (simp add: ExtractSNI_cutOffHello handleHTTPS_def redirected_def
      firstRead_fullBufferHello ExtractSNI_fullBufferHello)

text \<open>
  C4 does not hold of the code on the HTTP path: for an allowed request the handler
  writes the request line alone to the upstream socket, while its reader has handed out
  (and so consumed from the client socket) the request line and the \<open>Host\<close> line.
\<close>

theorem handleHTTP_replays_request_line_only:
  "handleHTTP asciiOnly [] redirected plainRequest =
     [Dial ''93.184.216.34:443'' ProxyMark, UpstreamWrite (''GET / HTTP/1.1'' @ crlf),
      Splice, CloseUpstream, CloseClient] \<and>
   parseRequest asciiOnly plainRequest =
     Ok \<lparr>reqLine = ''GET / HTTP/1.1'' @ crlf, reqHost = ''example.org'', reqUnread = crlf\<rparr> \<and>
   take (length plainRequest - length crlf) plainRequest =
     ''GET / HTTP/1.1'' @ crlf @ ''Host: example.org'' @ crlf \<and>
   ''GET / HTTP/1.1'' @ crlf \<noteq> ''GET / HTTP/1.1'' @ crlf @ ''Host: example.org'' @ crlf"
  by code_simp

text \<open>
  C5, as the claim states it, fails twice: the alert record that \<open>sendTLSAlert\<close> writes
  has level 1 (warning) and description 0 (\<open>close_notify\<close>), not level 2 (fatal); and
  for a request without a \<open>Host\<close> header the HTTP handler closes without writing
  anything.
\<close>

theorem closers_counterexample:
  "tlsAlert ! 5 = CHR 0x01 \<and> tlsAlert ! 5 \<noteq> CHR 0x02 \<and> tlsAlert ! 6 = CHR 0x00 \<and>
   parseRequest asciiOnly hostlessRequest = Err NoHostHeaderFound \<and>
   handleHTTP asciiOnly [''reddit.com''] redirected hostlessRequest = [CloseClient]"
  by code_simp

text \<open>
  C5, amended. Once the original destination is known: whenever SNI extraction returns
  an error or the extracted hostname is blocked, the HTTPS handler writes exactly the
  7-byte alert record \<open>15 03 03 00 02 01 00\<close> (a warning-level \<open>close_notify\<close>) and
  closes; whenever the HTTP handler has found a host and the host is blocked, it writes
  a response that begins \<open>HTTP/1.1 403 Forbidden\<close> and closes.
\<close>

theorem handlers_write_closers:
  assumes "originalDst env = Some d"
  shows "((\<exists>e. ExtractSNI (firstRead chunk) = Err e) \<or>
          (\<exists>h. ExtractSNI (firstRead chunk) = Ok h \<and> isBlocked U blockedDomains h)
          \<longrightarrow> handleHTTPS U blockedDomains env (Some chunk) = [ClientWrite tlsAlert, CloseClient]) \<and>
         tlsAlert = [CHR 0x15, CHR 0x03, CHR 0x03, CHR 0x00, CHR 0x02, CHR 0x01, CHR 0x00] \<and>
         length tlsAlert = 7 \<and>
         (parseRequest U stream = Ok r \<and> isBlocked U blockedDomains (reqHost r)
          \<longrightarrow> (\<exists>resp. handleHTTP U blockedDomains env stream = [ClientWrite resp, CloseClient] \<and>
                HasPrefix resp ''HTTP/1.1 403 Forbidden''))"
  using assms
  by (auto simp: handleHTTPS_def handleHTTP_def sendTLSAlert_def tlsAlert_def Let_def
      forbiddenResponse_def HasPrefix_def)

lemma parseRequest_blockedRequest:
  "parseRequest asciiOnly blockedRequest =
     Ok \<lparr>reqLine = ''GET / HTTP/1.1'' @ crlf, reqHost = ''old.reddit.com'', reqUnread = crlf\<rparr>"
  by code_simp

lemma reddit_verdict: "isBlocked asciiOnly [''reddit.com''] ''old.reddit.com''"
  by code_simp

theorem handlers_write_closers_witness:
  "originalDst redirected = Some ''93.184.216.34:443'' \<and>
   ExtractSNI (firstRead stalledHello) = Err ErrInvalidData \<and>
   handleHTTPS asciiOnly [''reddit.com''] redirected (Some stalledHello)
     = [ClientWrite tlsAlert, CloseClient] \<and>
   length tlsAlert = 7 \<and>
   isBlocked asciiOnly [''reddit.com''] ''old.reddit.com'' \<and>
   (\<exists>resp. handleHTTP asciiOnly [''reddit.com''] redirected blockedRequest
            = [ClientWrite resp, CloseClient] \<and>
          HasPrefix resp ''HTTP/1.1 403 Forbidden'')"
proof -
  have o: "originalDst redirected = Some ''93.184.216.34:443''"
    by (simp add: redirected_def)
  have e: "ExtractSNI (firstRead stalledHello) = Err ErrInvalidData"
    by (rule ExtractSNI_firstRead_eq [OF hello_lengths(3) ExtractSNI_stalledHello]) simp
  note t = handlers_write_closers [OF o, where chunk = stalledHello and U = asciiOnly
      and blockedDomains = "[''reddit.com'']" and stream = blockedRequest
      and r = "\<lparr>reqLine = ''GET / HTTP/1.1'' @ crlf, reqHost = ''old.reddit.com'',
                 reqUnread = crlf\<rparr>"]
  from o e t parseRequest_blockedRequest reddit_verdict show ?thesis
    by simp
qed

section \<open>The hostname of an HTTP request, and what the matcher ignores\<close>






















end
